theory Spec2Isabelle
  imports Complex_Main
begin

section \<open>Arrays and element arithmetic\<close>

text \<open>
  The climatology helpers of \<^verbatim>\<open>research_helpers.py\<close> work on numpy arrays of
  binary64 values. An array is its shape together with its elements in
  row-major (C) order, as numpy stores a contiguous array.

  Elements: a finite value is a real number, so rounding and overflow are not
  part of this development; \<open>NaN\<close> is part of it, because the code itself
  produces it (the mean of an empty slice is \<open>0/0\<close>).
\<close>

datatype error = IndexError | ValueError | AxisError | LinAlgError

datatype float64 = NaN | Num real

fun fadd :: "float64 \<Rightarrow> float64 \<Rightarrow> float64" where
  "fadd (Num x) (Num y) = Num (x + y)"
| "fadd _ _ = NaN"

fun fsub :: "float64 \<Rightarrow> float64 \<Rightarrow> float64" where
  "fsub (Num x) (Num y) = Num (x - y)"
| "fsub _ _ = NaN"

fun fmul :: "float64 \<Rightarrow> float64 \<Rightarrow> float64" where
  "fmul (Num x) (Num y) = Num (x * y)"
| "fmul _ _ = NaN"

text \<open>Division of a sum by a positive count of items.\<close>

fun fdiv_count :: "float64 \<Rightarrow> nat \<Rightarrow> float64" where
  "fdiv_count (Num x) n = Num (x / real n)"
| "fdiv_count NaN n = NaN"


text \<open>\<^verbatim>\<open>np.add.reduce\<close> over one lane: the first item, then the others added in order.\<close>

fun fsum :: "float64 list \<Rightarrow> float64" where
  "fsum [] = Num 0"
| "fsum (x # xs) = foldl fadd x xs"

text \<open>
  \<^verbatim>\<open>np.mean\<close> over one lane. On an empty lane numpy warns (``Mean of empty
  slice'') and divides the empty sum \<open>0\<close> by the count \<open>0\<close>: the value is NaN, and
  no exception is raised.
\<close>

definition mean_of :: "float64 list \<Rightarrow> float64" where
  "mean_of xs = (if xs = [] then NaN else fdiv_count (fsum xs) (length xs))"

record ndarray =
  shape :: "nat list"
  data :: "float64 list"

definition wf_array :: "ndarray \<Rightarrow> bool" where
  "wf_array a = (length (data a) = prod_list (shape a))"

text \<open>\<^verbatim>\<open>a[:n]\<close> for \<open>n \<ge> 0\<close>: the first \<open>n\<close> rows (all of them when there are fewer).\<close>

definition slice_rows :: "nat \<Rightarrow> ndarray \<Rightarrow> error + ndarray" where
  "slice_rows n a =
     (case shape a of
        [] \<Rightarrow> Inl IndexError
      | t # rest \<Rightarrow>
          Inr \<lparr>shape = min n t # rest,
               data = take (min n t * prod_list rest) (data a)\<rparr>)"

text \<open>
  \<^verbatim>\<open>a.reshape(-1, d1, ..., dk)\<close>. numpy infers the unknown dimension as
  \<open>size / (d1 * ... * dk)\<close> and raises ValueError when the known dimensions
  multiply to zero or do not divide the size.
\<close>

definition reshape_unknown :: "nat list \<Rightarrow> ndarray \<Rightarrow> error + ndarray" where
  "reshape_unknown dims a =
     (let s_original = prod_list (shape a); s_known = prod_list dims
      in if s_known = 0 \<or> s_original mod s_known \<noteq> 0 then Inl ValueError
         else Inr \<lparr>shape = (s_original div s_known) # dims, data = data a\<rparr>)"

text \<open>\<^verbatim>\<open>np.mean(a, axis=0)\<close>: the mean over the first axis, one lane per remaining index.\<close>

definition np_mean_axis0 :: "ndarray \<Rightarrow> error + ndarray" where
  "np_mean_axis0 a =
     (case shape a of
        [] \<Rightarrow> Inl AxisError
      | n # rest \<Rightarrow>
          (let stride = prod_list rest
           in Inr \<lparr>shape = rest,
                   data = map (\<lambda>k. mean_of (map (\<lambda>y. data a ! (y * stride + k)) [0..<n]))
                              [0..<stride]\<rparr>))"

section \<open>monthly\_mean\<close>

text \<open>
  \<^verbatim>\<open>
  complete_years = time_series.shape[0] // 12
  monthly_mean = np.mean(
      time_series[:complete_years*12].reshape(-1, 12, lat.shape[0], lon.shape[0]), axis=0)
  \<close>
  The coordinate arrays are one-dimensional, so \<^verbatim>\<open>lat.shape[0]\<close> is their length.
\<close>

definition monthly_mean :: "ndarray \<Rightarrow> float64 list \<Rightarrow> float64 list \<Rightarrow> error + ndarray" where
  "monthly_mean time_series lat lon =
     (case shape time_series of
        [] \<Rightarrow> Inl IndexError
      | t # rest \<Rightarrow>
          (let complete_years = t div 12
           in case slice_rows (complete_years * 12) time_series of
                Inl e \<Rightarrow> Inl e
              | Inr head \<Rightarrow>
                  (case reshape_unknown [12, length lat, length lon] head of
                     Inl e \<Rightarrow> Inl e
                   | Inr grouped \<Rightarrow> np_mean_axis0 grouped)))"


section \<open>monthly\_regression\<close>

text \<open>
  The input is a one-dimensional array. The predictor matrix is a list of rows; it has
  twelve rows of five entries wherever it is read.

  \<^verbatim>\<open>np.linalg.lstsq\<close> is LAPACK's least-squares driver, not code of this repository:
  it is a parameter. It returns the coefficient vector or raises LinAlgError.
\<close>

type_synonym solver = "float64 list list \<Rightarrow> float64 list \<Rightarrow> error + float64 list"

definition np_ones :: "nat \<Rightarrow> nat \<Rightarrow> float64 list list" where
  "np_ones n m = replicate n (replicate m (Num 1))"

definition np_arange :: "nat \<Rightarrow> nat \<Rightarrow> float64 list" where
  "np_arange a b = map (\<lambda>k. Num (real k)) [a..<b]"

text \<open>A real function applied to every element, as \<^verbatim>\<open>np.cos(2 * np.pi * time / 12)\<close> does.\<close>

definition umap :: "(real \<Rightarrow> real) \<Rightarrow> float64 list \<Rightarrow> float64 list" where
  "umap f v = map (\<lambda>x. case x of NaN \<Rightarrow> NaN | Num t \<Rightarrow> Num (f t)) v"

text \<open>
  \<^verbatim>\<open>p[:, j] = v\<close>: the right-hand side is broadcast to the column, so its length is
  the number of rows, or one; anything else raises ValueError.
\<close>

definition assign_column :: "float64 list list \<Rightarrow> nat \<Rightarrow> float64 list \<Rightarrow> error + float64 list list" where
  "assign_column p j v =
     (if length v = length p then Inr (map2 (\<lambda>row x. row[j := x]) p v)
      else if length v = 1 then Inr (map (\<lambda>row. row[j := hd v]) p)
      else Inl ValueError)"

text \<open>
  \<^verbatim>\<open>
  predictors = np.ones((num_periods, 5))
  time = np.arange(1, 13)
  predictors[:, 1] = np.cos(2 * np.pi * time / 12)
  predictors[:, 2] = np.sin(2 * np.pi * time / 12)
  predictors[:, 3] = np.cos(4 * np.pi * time / 12)
  predictors[:, 4] = np.sin(4 * np.pi * time / 12)
  \<close>
\<close>

definition build_predictors :: "nat \<Rightarrow> error + float64 list list" where
  "build_predictors num_periods =
     (let predictors = np_ones num_periods 5;
          time = np_arange 1 13
      in case assign_column predictors 1 (umap (\<lambda>t. cos (2 * pi * t / 12)) time) of
           Inl e \<Rightarrow> Inl e
         | Inr p1 \<Rightarrow>
        (case assign_column p1 2 (umap (\<lambda>t. sin (2 * pi * t / 12)) time) of
           Inl e \<Rightarrow> Inl e
         | Inr p2 \<Rightarrow>
        (case assign_column p2 3 (umap (\<lambda>t. cos (4 * pi * t / 12)) time) of
           Inl e \<Rightarrow> Inl e
         | Inr p3 \<Rightarrow>
            assign_column p3 4 (umap (\<lambda>t. sin (4 * pi * t / 12)) time))))"

definition dot :: "float64 list \<Rightarrow> float64 list \<Rightarrow> float64" where
  "dot row c = fsum (map2 fmul row c)"

text \<open>\<^verbatim>\<open>np.matmul(p, c)\<close> of a matrix and a vector: every row times the vector.\<close>

definition np_matmul :: "float64 list list \<Rightarrow> float64 list \<Rightarrow> error + float64 list" where
  "np_matmul p c =
     (if list_all (\<lambda>row. length row = length c) p then Inr (map (\<lambda>row. dot row c) p)
      else Inl ValueError)"

definition monthly_regression :: "solver \<Rightarrow> float64 list \<Rightarrow> error + float64 list" where
  "monthly_regression lstsq time_series =
     (let num_periods = length time_series
      in case build_predictors num_periods of
           Inl e \<Rightarrow> Inl e
         | Inr predictors \<Rightarrow>
             (case lstsq predictors time_series of
                Inl e \<Rightarrow> Inl e
              | Inr coefficients \<Rightarrow> np_matmul predictors coefficients))"

text \<open>
  The specification's design matrix: one row
  \<open>1, cos(2\<pi>m/12), sin(2\<pi>m/12), cos(4\<pi>m/12), sin(4\<pi>m/12)\<close> for each \<open>m = 1..12\<close>.
\<close>

definition design_matrix :: "float64 list list" where
  "design_matrix =
     map (\<lambda>m. [Num 1,
               Num (cos (2 * pi * real m / 12)), Num (sin (2 * pi * real m / 12)),
               Num (cos (4 * pi * real m / 12)), Num (sin (4 * pi * real m / 12))])
         [1..<13]"



section \<open>monthly\_anomaly\_series\<close>

definition np_zeros :: "nat list \<Rightarrow> ndarray" where
  "np_zeros s = \<lparr>shape = s, data = replicate (prod_list s) (Num 0)\<rparr>"

text \<open>
  \<^verbatim>\<open>a[:, i, j]\<close> and \<^verbatim>\<open>a[:, i, j] = v\<close> on a three-dimensional array (the monthly mean
  field and the array allocated with its shape are three-dimensional). An index out of
  range raises IndexError; the assigned vector is broadcast as for a column.
\<close>

definition get_lane :: "ndarray \<Rightarrow> nat \<Rightarrow> nat \<Rightarrow> error + float64 list" where
  "get_lane a i j =
     (case shape a of
        [n, p, q] \<Rightarrow>
          if i < p \<and> j < q then Inr (map (\<lambda>m. data a ! ((m * p + i) * q + j)) [0..<n])
          else Inl IndexError
      | _ \<Rightarrow> Inl IndexError)"

definition set_lane :: "ndarray \<Rightarrow> nat \<Rightarrow> nat \<Rightarrow> float64 list \<Rightarrow> error + ndarray" where
  "set_lane a i j v =
     (case shape a of
        [n, p, q] \<Rightarrow>
          if \<not> (i < p \<and> j < q) then Inl IndexError
          else if length v = n then
            Inr (a\<lparr>data := fold (\<lambda>m d. d[(m * p + i) * q + j := v ! m]) [0..<n] (data a)\<rparr>)
          else if length v = 1 then
            Inr (a\<lparr>data := fold (\<lambda>m d. d[(m * p + i) * q + j := hd v]) [0..<n] (data a)\<rparr>)
          else Inl ValueError
      | _ \<Rightarrow> Inl IndexError)"

text \<open>
  \<^verbatim>\<open>
  for j in range(len(lon_series)):
      for i in range(len(lat_series)):
          serie_monthly_mean_fit_aux[:, i, j] = monthly_regression(
              series_monthly_mean[:, i, j])
  \<close>
  The cells in the order the loops visit them, and the loop body run over them; the
  first exception ends the loop.
\<close>

definition loop_cells :: "nat \<Rightarrow> nat \<Rightarrow> (nat \<times> nat) list" where
  "loop_cells n_lat n_lon = concat (map (\<lambda>j. map (\<lambda>i. (i, j)) [0..<n_lat]) [0..<n_lon])"

fun fit_cells :: "solver \<Rightarrow> ndarray \<Rightarrow> (nat \<times> nat) list \<Rightarrow> ndarray \<Rightarrow> error + ndarray" where
  "fit_cells lstsq mean_field [] aux = Inr aux"
| "fit_cells lstsq mean_field ((i, j) # cells) aux =
     (case get_lane mean_field i j of
        Inl e \<Rightarrow> Inl e
      | Inr lane \<Rightarrow>
          (case monthly_regression lstsq lane of
             Inl e \<Rightarrow> Inl e
           | Inr fitted \<Rightarrow>
               (case set_lane aux i j fitted of
                  Inl e \<Rightarrow> Inl e
                | Inr aux' \<Rightarrow> fit_cells lstsq mean_field cells aux')))"

text \<open>\<^verbatim>\<open>np.tile(a, (reps, 1, 1))\<close> for a three-dimensional \<open>a\<close>: \<open>reps\<close> copies along the first axis.\<close>

definition np_tile_rows :: "nat \<Rightarrow> ndarray \<Rightarrow> ndarray" where
  "np_tile_rows reps a =
     \<lparr>shape = (case shape a of [] \<Rightarrow> [] | n # rest \<Rightarrow> (reps * n) # rest),
      data = concat (replicate reps (data a))\<rparr>"

text \<open>
  Broadcasting of \<^verbatim>\<open>a - b\<close>. The shorter shape is padded with ones on the left; two
  dimensions are compatible when they are equal or one of them is one; otherwise numpy
  raises ValueError (``operands could not be broadcast together'').
\<close>

definition pad_shape :: "nat \<Rightarrow> nat list \<Rightarrow> nat list" where
  "pad_shape n s = replicate (n - length s) 1 @ s"

fun broadcast_shapes :: "nat list \<Rightarrow> nat list \<Rightarrow> nat list option" where
  "broadcast_shapes [] [] = Some []"
| "broadcast_shapes (x # xs) (y # ys) =
     (if x = y \<or> y = 1 then map_option ((#) x) (broadcast_shapes xs ys)
      else if x = 1 then map_option ((#) y) (broadcast_shapes xs ys)
      else None)"
| "broadcast_shapes _ _ = None"

fun broadcast_to :: "nat list \<Rightarrow> nat list \<Rightarrow> 'a list \<Rightarrow> 'a list" where
  "broadcast_to (t # ts) (s # ss) xs =
     (let stride = prod_list ss
      in if s = t then
           concat (map (\<lambda>i. broadcast_to ts ss (take stride (drop (i * stride) xs))) [0..<t])
         else concat (replicate t (broadcast_to ts ss xs)))"
| "broadcast_to _ _ xs = xs"

definition np_subtract :: "ndarray \<Rightarrow> ndarray \<Rightarrow> error + ndarray" where
  "np_subtract a b =
     (let n = max (length (shape a)) (length (shape b));
          sa = pad_shape n (shape a);
          sb = pad_shape n (shape b)
      in case broadcast_shapes sa sb of
           None \<Rightarrow> Inl ValueError
         | Some s \<Rightarrow>
             Inr \<lparr>shape = s,
                 data = map2 fsub (broadcast_to s sa (data a)) (broadcast_to s sb (data b))\<rparr>)"

text \<open>
  \<^verbatim>\<open>
  complete_years = time_series.shape[0] // 12
  series_monthly_mean = monthly_mean(time_series, lat_series, lon_series)
  serie_monthly_mean_fit_aux = np.zeros(series_monthly_mean.shape)
  for j ...: for i ...: (the loop above)
  series_monthly_mean_fit = np.tile(serie_monthly_mean_fit_aux, (complete_years, 1, 1))
  monthly_anomaly_series = time_series - series_monthly_mean_fit
  return monthly_anomaly_series, series_monthly_mean_fit, series_monthly_mean
  \<close>
  The subtraction is from \<^verbatim>\<open>time_series\<close> itself, not from its first
  \<^verbatim>\<open>complete_years*12\<close> rows.
\<close>

definition monthly_anomaly_series ::
  "solver \<Rightarrow> ndarray \<Rightarrow> float64 list \<Rightarrow> float64 list \<Rightarrow> error + (ndarray \<times> ndarray \<times> ndarray)" where
  "monthly_anomaly_series lstsq time_series lat_series lon_series =
     (case shape time_series of
        [] \<Rightarrow> Inl IndexError
      | t # rest \<Rightarrow>
          (let complete_years = t div 12
           in case monthly_mean time_series lat_series lon_series of
                Inl e \<Rightarrow> Inl e
              | Inr series_monthly_mean \<Rightarrow>
                  (case fit_cells lstsq series_monthly_mean
                          (loop_cells (length lat_series) (length lon_series))
                          (np_zeros (shape series_monthly_mean)) of
                     Inl e \<Rightarrow> Inl e
                   | Inr serie_monthly_mean_fit_aux \<Rightarrow>
                       (let series_monthly_mean_fit =
                              np_tile_rows complete_years serie_monthly_mean_fit_aux
                        in case np_subtract time_series series_monthly_mean_fit of
                             Inl e \<Rightarrow> Inl e
                           | Inr anomaly \<Rightarrow>
                               Inr (anomaly, series_monthly_mean_fit, series_monthly_mean)))))"

section \<open>monthly\_regression on a store of arrays\<close>

text \<open>
  Python passes arrays by reference, and \<^verbatim>\<open>monthly_regression\<close> assigns into an array
  (\<^verbatim>\<open>predictors[:, 1] = ...\<close>). To say which arrays a call writes to, the same function
  is modelled on a store: the one- and two-dimensional arrays that exist, by address;
  an allocation takes the next address. Arrays bound to a name are allocated
  (\<^verbatim>\<open>predictors\<close>, \<^verbatim>\<open>time\<close>, \<^verbatim>\<open>coefficients\<close>, \<^verbatim>\<open>adjusted_time_series\<close>); the temporaries
  of an expression are values. \<^verbatim>\<open>np.linalg.lstsq\<close> and \<^verbatim>\<open>np.matmul\<close> read their arguments
  and return new arrays.
\<close>

record store =
  vectors :: "float64 list list"
  matrices :: "float64 list list list"

definition new_vector :: "float64 list \<Rightarrow> store \<Rightarrow> nat \<times> store" where
  "new_vector v s = (length (vectors s), s\<lparr>vectors := vectors s @ [v]\<rparr>)"

definition new_matrix :: "float64 list list \<Rightarrow> store \<Rightarrow> nat \<times> store" where
  "new_matrix m s = (length (matrices s), s\<lparr>matrices := matrices s @ [m]\<rparr>)"

fun bind_store ::
  "(error + 'a) \<times> store \<Rightarrow> ('a \<Rightarrow> store \<Rightarrow> (error + 'b) \<times> store) \<Rightarrow> (error + 'b) \<times> store" where
  "bind_store (Inl e, s) f = (Inl e, s)"
| "bind_store (Inr x, s) f = f x s"

text \<open>\<^verbatim>\<open>p[:, j] = v\<close> on the matrix at address \<open>p\<close>, in place; nothing changes when it raises.\<close>

definition store_column :: "nat \<Rightarrow> nat \<Rightarrow> float64 list \<Rightarrow> store \<Rightarrow> (error + unit) \<times> store" where
  "store_column p j v s =
     (case assign_column (matrices s ! p) j v of
        Inl e \<Rightarrow> (Inl e, s)
      | Inr m \<Rightarrow> (Inr (), s\<lparr>matrices := (matrices s)[p := m]\<rparr>))"

definition store_lstsq :: "solver \<Rightarrow> nat \<Rightarrow> nat \<Rightarrow> store \<Rightarrow> (error + nat) \<times> store" where
  "store_lstsq lstsq p b s =
     (case lstsq (matrices s ! p) (vectors s ! b) of
        Inl e \<Rightarrow> (Inl e, s)
      | Inr x \<Rightarrow> (let (a, s') = new_vector x s in (Inr a, s')))"

definition store_matmul :: "nat \<Rightarrow> nat \<Rightarrow> store \<Rightarrow> (error + nat) \<times> store" where
  "store_matmul p c s =
     (case np_matmul (matrices s ! p) (vectors s ! c) of
        Inl e \<Rightarrow> (Inl e, s)
      | Inr v \<Rightarrow> (let (a, s') = new_vector v s in (Inr a, s')))"

definition monthly_regression_store :: "solver \<Rightarrow> nat \<Rightarrow> store \<Rightarrow> (error + nat) \<times> store" where
  "monthly_regression_store lstsq time_series s0 =
     (let num_periods = length (vectors s0 ! time_series);
          (predictors, s1) = new_matrix (np_ones num_periods 5) s0;
          (time, s2) = new_vector (np_arange 1 13) s1
      in bind_store (store_column predictors 1
                       (umap (\<lambda>t. cos (2 * pi * t / 12)) (vectors s2 ! time)) s2) (\<lambda>_ s3.
         bind_store (store_column predictors 2
                       (umap (\<lambda>t. sin (2 * pi * t / 12)) (vectors s3 ! time)) s3) (\<lambda>_ s4.
         bind_store (store_column predictors 3
                       (umap (\<lambda>t. cos (4 * pi * t / 12)) (vectors s4 ! time)) s4) (\<lambda>_ s5.
         bind_store (store_column predictors 4
                       (umap (\<lambda>t. sin (4 * pi * t / 12)) (vectors s5 ! time)) s5) (\<lambda>_ s6.
         bind_store (store_lstsq lstsq predictors time_series s6) (\<lambda>coefficients s7.
         store_matmul predictors coefficients s7))))))"

text \<open>What the caller gets: the exception, or the array at the returned address.\<close>

definition returned :: "(error + nat) \<times> store \<Rightarrow> error + float64 list" where
  "returned r = (case r of (Inl e, s) \<Rightarrow> Inl e | (Inr a, s) \<Rightarrow> Inr (vectors s ! a))"

section \<open>Properties of monthly\_mean\<close>

lemma monthly_mean_unfold:
  assumes "shape X = [T, nlat, nlon]"
  shows "monthly_mean X lat lon =
     (let L = 12 * length lat * length lon; sz = (T div 12) * 12 * nlat * nlon
      in if L = 0 \<or> sz mod L \<noteq> 0 then Inl ValueError
         else Inr \<lparr>shape = [12, length lat, length lon],
                 data = map (\<lambda>k. mean_of (map (\<lambda>y. take sz (data X) ! (y * L + k)) [0..<sz div L])) [0..<L]\<rparr>)"
  using assms
  by (simp add: monthly_mean_def slice_rows_def reshape_unknown_def np_mean_axis0_def Let_def
      min_def mult.assoc)

lemma monthly_mean_matching:
  assumes sh: "shape X = [T, nlat, nlon]" and la: "length lat = nlat" and lo: "length lon = nlon"
    and pos: "0 < nlat" "0 < nlon"
  shows "monthly_mean X lat lon =
     Inr \<lparr>shape = [12, nlat, nlon],
         data = map (\<lambda>k. mean_of (map (\<lambda>y. data X ! (y * (12 * nlat * nlon) + k)) [0..<T div 12]))
                    [0..<12 * nlat * nlon]\<rparr>"
proof -
  let ?L = "12 * nlat * nlon"
  let ?Y = "T div 12"
  have sz: "?Y * 12 * nlat * nlon = ?Y * ?L" by simp
  have Lpos: "0 < ?L" using pos by simp
  have idx: "take (?Y * ?L) (data X) ! (y * ?L + k) = data X ! (y * ?L + k)"
    if "y < ?Y" "k < ?L" for y k
  proof -
    have "y * ?L + k < Suc y * ?L" using that by simp
    also have "\<dots> \<le> ?Y * ?L" using that(1) by (intro mult_le_mono1) simp
    finally show ?thesis by simp
  qed
  have "monthly_mean X lat lon =
      Inr \<lparr>shape = [12, nlat, nlon],
         data = map (\<lambda>k. mean_of (map (\<lambda>y. take (?Y * ?L) (data X) ! (y * ?L + k)) [0..<?Y])) [0..<?L]\<rparr>"
    using Lpos pos la lo by (simp add: monthly_mean_unfold[OF sh] Let_def sz del: mult_Suc)
  also have "map (\<lambda>k. mean_of (map (\<lambda>y. take (?Y * ?L) (data X) ! (y * ?L + k)) [0..<?Y])) [0..<?L]
      = map (\<lambda>k. mean_of (map (\<lambda>y. data X ! (y * ?L + k)) [0..<?Y])) [0..<?L]"
    by (intro map_cong refl arg_cong[where f = mean_of]) (simp add: idx)
  finally show ?thesis .
qed










section \<open>Properties of monthly\_regression\<close>

lemma build_predictors_12: "build_predictors 12 = Inr design_matrix"
  by (simp add: build_predictors_def np_ones_def np_arange_def umap_def assign_column_def
      design_matrix_def upt_conv_Cons numeral_eq_Suc mult.commute[of pi])

lemma build_predictors_other: "n \<noteq> 12 \<Longrightarrow> build_predictors n = Inl ValueError"
  by (simp add: build_predictors_def np_ones_def np_arange_def umap_def assign_column_def)

lemma monthly_regression_12:
  "length ts = 12 \<Longrightarrow>
   monthly_regression lstsq ts =
     (case lstsq design_matrix ts of Inl e \<Rightarrow> Inl e | Inr c \<Rightarrow> np_matmul design_matrix c)"
  by (simp add: monthly_regression_def build_predictors_12)

lemma length_design_matrix: "length design_matrix = 12"
  by (simp add: design_matrix_def)

lemma design_matrix_rows: "list_all (\<lambda>row. length row = 5) design_matrix"
  by (simp add: design_matrix_def list_all_iff)

text \<open>
  Claim C9. On a one-dimensional input whose length is not 12 the first column
  assignment cannot broadcast its twelve values and \<open>monthly_regression\<close> raises
  ValueError, whatever the solver does. On an input of length 12 the predictor matrix is
  the fixed design matrix, whatever the values of the input, and the result is the
  solver's error or the design matrix times the solver's coefficients.
\<close>

theorem monthly_regression_only_on_12:
  "(length ts \<noteq> 12 \<longrightarrow> monthly_regression lstsq ts = Inl ValueError) \<and>
   (length ts = 12 \<longrightarrow>
      build_predictors (length ts) = Inr design_matrix \<and>
      monthly_regression lstsq ts =
        (case lstsq design_matrix ts of Inl e \<Rightarrow> Inl e | Inr c \<Rightarrow> np_matmul design_matrix c))"
  by (simp add: monthly_regression_12 build_predictors_12)
     (simp add: monthly_regression_def build_predictors_other)

theorem monthly_regression_only_on_12_witness:
  "monthly_regression (\<lambda>a b. Inr (replicate 5 (Num 0))) (replicate 11 (Num 1)) = Inl ValueError \<and>
   build_predictors (length (replicate 12 (Num 1))) = Inr design_matrix \<and>
   monthly_regression (\<lambda>a b. Inl LinAlgError) (replicate 12 (Num 1)) = Inl LinAlgError"
  using monthly_regression_only_on_12[of "replicate 11 (Num 1)" "\<lambda>a b. Inr (replicate 5 (Num 0))"]
    monthly_regression_only_on_12[of "replicate 12 (Num 1)" "\<lambda>a b. Inl LinAlgError"]
  by simp








section \<open>Failures of monthly\_mean and monthly\_anomaly\_series\<close>

lemma monthly_mean_result:
  assumes "monthly_mean X lat lon = Inr M"
  shows "shape M = [12, length lat, length lon] \<and> wf_array M \<and> 0 < length lat \<and> 0 < length lon"
  using assms
  by (auto simp: monthly_mean_def slice_rows_def reshape_unknown_def np_mean_axis0_def Let_def
      wf_array_def split: list.splits if_splits)

lemma monthly_mean_error:
  assumes "shape X = [T, nlat, nlon]" "monthly_mean X lat lon = Inl e"
  shows "e = ValueError"
  using assms(2) unfolding monthly_mean_unfold[OF assms(1)] Let_def
  by (simp split: if_splits)



lemma np_subtract_rows_mismatch:
  assumes "shape a = [t, p, q]" "shape b = [k, p', q']" "t \<noteq> k" "t \<noteq> 1" "k \<noteq> 1"
  shows "np_subtract a b = Inl ValueError"
  using assms by (simp add: np_subtract_def pad_shape_def)


lemma mean_of_single: "mean_of [x] = x"
  by (cases x) (simp_all add: mean_of_def)

lemma monthly_mean_one_year:
  assumes wf: "wf_array X" and sh: "shape X = [12, nlat, nlon]"
    and la: "length lat = nlat" and lo: "length lon = nlon" and pos: "0 < nlat" "0 < nlon"
  shows "monthly_mean X lat lon = Inr X"
proof -
  have len: "length (data X) = 12 * nlat * nlon"
    using wf sh by (simp add: wf_array_def)
  have "map (\<lambda>k. mean_of (map (\<lambda>y. data X ! (y * (12 * nlat * nlon) + k)) [0..<12 div 12]))
          [0..<12 * nlat * nlon] = map (\<lambda>k. data X ! k) [0..<length (data X)]"
    by (simp add: mean_of_single len)
  also have "\<dots> = data X" by (rule map_nth)
  finally have "monthly_mean X lat lon = Inr \<lparr>shape = [12, nlat, nlon], data = data X\<rparr>"
    by (simp only: monthly_mean_matching[OF sh la lo pos])
  then show ?thesis using sh by simp
qed





section \<open>monthly\_anomaly\_series on complete years\<close>

lemma length_fold_update: "length (fold (\<lambda>m d. d[f m := g m]) ms d) = length d"
  by (induction ms arbitrary: d) simp_all

lemma set_lane_ok:
  assumes "shape a = [n, p, q]" "i < p" "j < q" "length v = n"
  shows "\<exists>a'. set_lane a i j v = Inr a' \<and> shape a' = shape a \<and> length (data a') = length (data a)"
  using assms by (simp add: set_lane_def length_fold_update)

lemma get_lane_ok:
  assumes "shape a = [n, p, q]" "i < p" "j < q"
  shows "\<exists>lane. get_lane a i j = Inr lane \<and> length lane = n"
  using assms by (simp add: get_lane_def)

lemma monthly_regression_ok:
  assumes solver: "\<And>b. length b = 12 \<Longrightarrow> \<exists>c. lstsq design_matrix b = Inr c \<and> length c = 5"
    and len: "length ts = 12"
  shows "\<exists>fitted. monthly_regression lstsq ts = Inr fitted \<and> length fitted = 12"
proof -
  from solver[OF len] obtain c where c: "lstsq design_matrix ts = Inr c" "length c = 5" by blast
  show ?thesis
    using design_matrix_rows
    by (simp add: monthly_regression_12[OF len] c np_matmul_def length_design_matrix)
qed

lemma fit_cells_ok:
  assumes solver: "\<And>b. length b = 12 \<Longrightarrow> \<exists>c. lstsq design_matrix b = Inr c \<and> length c = 5"
    and M: "shape M = [12, p, q]"
  shows "shape aux = [12, p, q] \<Longrightarrow> list_all (\<lambda>(i, j). i < p \<and> j < q) cells \<Longrightarrow>
         \<exists>aux'. fit_cells lstsq M cells aux = Inr aux' \<and> shape aux' = shape aux \<and>
                length (data aux') = length (data aux)"
proof (induction cells arbitrary: aux)
  case Nil
  then show ?case by simp
next
  case (Cons c cells)
  obtain i j where c: "c = (i, j)" by (cases c)
  from Cons.prems have ij: "i < p" "j < q" and rest: "list_all (\<lambda>(i, j). i < p \<and> j < q) cells"
    by (simp_all add: c)
  from get_lane_ok[OF M ij] obtain lane where lane: "get_lane M i j = Inr lane" "length lane = 12"
    by blast
  from monthly_regression_ok[of lstsq, OF solver lane(2)] obtain fitted
    where fitted: "monthly_regression lstsq lane = Inr fitted" "length fitted = 12" by blast
  from set_lane_ok[OF Cons.prems(1) ij fitted(2)] obtain aux1
    where aux1: "set_lane aux i j fitted = Inr aux1" "shape aux1 = shape aux"
      "length (data aux1) = length (data aux)" by blast
  from Cons.IH[of aux1] aux1 Cons.prems(1) rest obtain aux'
    where "fit_cells lstsq M cells aux1 = Inr aux'" "shape aux' = shape aux1"
      "length (data aux') = length (data aux1)" by auto
  then show ?case by (simp add: c lane fitted aux1)
qed

lemma loop_cells_in_range: "list_all (\<lambda>(i, j). i < p \<and> j < q) (loop_cells p q)"
  by (auto simp: loop_cells_def list_all_iff)





lemma monthly_anomaly_series_fit:
  assumes solver: "\<And>b. length b = 12 \<Longrightarrow> \<exists>c. lstsq design_matrix b = Inr c \<and> length c = 5"
    and sh: "shape X = [T, nlat, nlon]"
    and M: "monthly_mean X lat lon = Inr M"
  shows "\<exists>F. shape F = [T div 12 * 12, length lat, length lon] \<and> wf_array F \<and>
           monthly_anomaly_series lstsq X lat lon =
             (case np_subtract X F of Inl e \<Rightarrow> Inl e | Inr A \<Rightarrow> Inr (A, F, M))"
proof -
  note Mr = monthly_mean_result[OF M]
  let ?z = "np_zeros (shape M)"
  have z: "shape ?z = [12, length lat, length lon]"
    "length (data ?z) = 12 * length lat * length lon"
    using Mr by (simp_all add: np_zeros_def)
  from fit_cells_ok[of lstsq M "length lat" "length lon" ?z, OF solver _ z(1) loop_cells_in_range] Mr
  obtain aux where aux: "fit_cells lstsq M (loop_cells (length lat) (length lon)) ?z = Inr aux"
    "shape aux = shape ?z" "length (data aux) = length (data ?z)" by auto
  let ?F = "np_tile_rows (T div 12) aux"
  have "shape ?F = [T div 12 * 12, length lat, length lon]"
    using aux z by (simp add: np_tile_rows_def)
  moreover have "wf_array ?F"
    using aux z by (simp add: np_tile_rows_def wf_array_def length_concat sum_list_replicate)
  moreover have "monthly_anomaly_series lstsq X lat lon =
      (case np_subtract X ?F of Inl e \<Rightarrow> Inl e | Inr A \<Rightarrow> Inr (A, ?F, M))"
    by (simp add: monthly_anomaly_series_def sh M aux Let_def)
  ultimately show ?thesis by blast
qed


lemma monthly_anomaly_series_partial_year_error:
  assumes solver: "\<And>b. length b = 12 \<Longrightarrow> \<exists>c. lstsq design_matrix b = Inr c \<and> length c = 5"
    and sh: "shape X = [T, nlat, nlon]" and T: "T mod 12 \<noteq> 0" "T \<noteq> 1"
  shows "monthly_anomaly_series lstsq X lat lon = Inl ValueError"
proof (cases "monthly_mean X lat lon")
  case (Inl e)
  then show ?thesis using monthly_mean_error[OF sh Inl] by (simp add: monthly_anomaly_series_def sh)
next
  case (Inr M)
  from monthly_anomaly_series_fit[of lstsq, OF solver sh Inr] obtain F where
    F: "shape F = [T div 12 * 12, length lat, length lon]"
    and res: "monthly_anomaly_series lstsq X lat lon =
             (case np_subtract X F of Inl e \<Rightarrow> Inl e | Inr A \<Rightarrow> Inr (A, F, M))"
    by blast
  have ne: "T \<noteq> T div 12 * 12" using T(1) by (metis mod_mult_self2_is_0)
  have "T div 12 * 12 \<noteq> 1" by presburger
  then have "np_subtract X F = Inl ValueError"
    using np_subtract_rows_mismatch[OF sh F ne T(2)] by simp
  then show ?thesis by (simp add: res)
qed

section \<open>The claims on failures, idempotence and coordinates\<close>

text \<open>
  Claim C3. A grid of thirteen months: the fit is tiled to the twelve months of the one
  complete year, the subtraction is from all thirteen, and the shapes \<open>(13, 1, 1)\<close> and
  \<open>(12, 1, 1)\<close> cannot be broadcast: ValueError, where the claim has an anomaly series
  of length 12. The solver here returns coefficients for every lane.
\<close>

theorem monthly_anomaly_series_thirteen_months:
  "monthly_anomaly_series (\<lambda>a b. Inr (replicate 5 (Num 0)))
     \<lparr>shape = [13, 1, 1], data = map (\<lambda>t. Num (real t)) [0..<13]\<rparr> [Num 0] [Num 0] = Inl ValueError"
  by (rule monthly_anomaly_series_partial_year_error
      [of "\<lambda>a b. Inr (replicate 5 (Num 0))" _ 13 1 1]) simp_all

text \<open>
  Claim C5, amended. No ShapeMismatchError exists in the code, and the coordinate lengths
  are never compared with the grid. \<open>monthly_mean\<close> raises exactly when the reshape does:
  when \<open>len(lat) * len(lon) = 0\<close> or \<open>(T div 12) * n_lat * n_lon\<close> is not a multiple of
  \<open>len(lat) * len(lon)\<close>. The error is a ValueError, and \<open>monthly_anomaly_series\<close> raises it
  too. In every other call, also one with coordinate lengths that disagree with the grid
  or with \<open>T < 12\<close>, \<open>monthly_mean\<close> returns an array of shape \<open>(12, len(lat), len(lon))\<close>.
\<close>

theorem monthly_mean_raises_iff:
  assumes sh: "shape X = [T, nlat, nlon]"
  shows "(isl (monthly_mean X lat lon) \<longleftrightarrow>
            length lat * length lon = 0 \<or>
            (T div 12 * nlat * nlon) mod (length lat * length lon) \<noteq> 0) \<and>
         (isl (monthly_mean X lat lon) \<longrightarrow>
            monthly_mean X lat lon = Inl ValueError \<and>
            monthly_anomaly_series lstsq X lat lon = Inl ValueError) \<and>
         (\<forall>M. monthly_mean X lat lon = Inr M \<longrightarrow> shape M = [12, length lat, length lon])"
proof -
  have "(T div 12 * 12 * nlat * nlon) mod (12 * length lat * length lon) =
        12 * ((T div 12 * nlat * nlon) mod (length lat * length lon))"
    using mult_mod_right[of 12 "T div 12 * nlat * nlon" "length lat * length lon"]
    by (simp add: mult.assoc mult.left_commute)
  then have iff: "isl (monthly_mean X lat lon) \<longleftrightarrow>
            length lat * length lon = 0 \<or>
            (T div 12 * nlat * nlon) mod (length lat * length lon) \<noteq> 0"
    unfolding monthly_mean_unfold[OF sh] Let_def by (simp add: mult.assoc)
  have err: "monthly_mean X lat lon = Inl ValueError \<and>
            monthly_anomaly_series lstsq X lat lon = Inl ValueError"
    if "isl (monthly_mean X lat lon)"
  proof -
    from that obtain e where e: "monthly_mean X lat lon = Inl e"
      by (cases "monthly_mean X lat lon") auto
    then have "e = ValueError" by (rule monthly_mean_error[OF sh])
    with e show ?thesis by (simp add: monthly_anomaly_series_def sh)
  qed
  have ok: "shape M = [12, length lat, length lon]" if "monthly_mean X lat lon = Inr M" for M
    using monthly_mean_result[OF that] by simp
  show ?thesis using iff err ok by blast
qed

theorem monthly_mean_raises_iff_witness:
  "monthly_mean \<lparr>shape = [12, 2, 3], data = map (\<lambda>t. Num (real t)) [0..<72]\<rparr>
      (replicate 4 (Num 0)) [Num 0] = Inl ValueError \<and>
   monthly_anomaly_series (\<lambda>a b. Inr (replicate 5 (Num 0)))
      \<lparr>shape = [12, 2, 3], data = map (\<lambda>t. Num (real t)) [0..<72]\<rparr>
      (replicate 4 (Num 0)) [Num 0] = Inl ValueError"
  using monthly_mean_raises_iff[of "\<lparr>shape = [12, 2, 3], data = map (\<lambda>t. Num (real t)) [0..<72]\<rparr>"
      12 2 3 "replicate 4 (Num 0)" "[Num 0]" "\<lambda>a b. Inr (replicate 5 (Num 0))"]
  by simp

text \<open>
  A grid of shape \<open>(12, 2, 3)\<close> with three latitudes and two longitudes: the sizes agree,
  the reshape succeeds, and an array of shape \<open>(12, 3, 2)\<close> is returned.
\<close>

theorem monthly_mean_swapped_axes_counterexample:
  "map_sum id shape
     (monthly_mean \<lparr>shape = [12, 2, 3], data = map (\<lambda>t. Num (real t)) [0..<72]\<rparr>
        (replicate 3 (Num 0)) (replicate 2 (Num 0))) = Inr [12, 3, 2]"
  by (simp add: monthly_mean_def slice_rows_def reshape_unknown_def np_mean_axis0_def)

lemma monthly_mean_twice:
  assumes "monthly_mean X lat lon = Inr M"
  shows "monthly_mean M lat lon = Inr M"
  using monthly_mean_result[OF assms]
  by (intro monthly_mean_one_year) auto




text \<open>
  Claim C10. \<open>monthly_mean\<close> and \<open>monthly_anomaly_series\<close> read the coordinate arrays only
  for their lengths: coordinate arrays of equal lengths give identical results on the same
  grid.
\<close>

theorem coordinates_only_by_length:
  assumes "length lat = length lat'" and "length lon = length lon'"
  shows "monthly_mean X lat lon = monthly_mean X lat' lon' \<and>
         monthly_anomaly_series lstsq X lat lon = monthly_anomaly_series lstsq X lat' lon'"
proof -
  have mm: "monthly_mean X lat lon = monthly_mean X lat' lon'"
    unfolding monthly_mean_def assms ..
  have "monthly_anomaly_series lstsq X lat lon = monthly_anomaly_series lstsq X lat' lon'"
    unfolding monthly_anomaly_series_def mm assms ..
  with mm show ?thesis ..
qed

theorem coordinates_only_by_length_witness:
  "monthly_mean \<lparr>shape = [12, 1, 1], data = replicate 12 (Num 2)\<rparr> [Num (-33)] [Num (-70)] =
     monthly_mean \<lparr>shape = [12, 1, 1], data = replicate 12 (Num 2)\<rparr> [Num 51] [Num 7] \<and>
   monthly_anomaly_series (\<lambda>a b. Inr (replicate 5 (Num 0)))
       \<lparr>shape = [12, 1, 1], data = replicate 12 (Num 2)\<rparr> [Num (-33)] [Num (-70)] =
     monthly_anomaly_series (\<lambda>a b. Inr (replicate 5 (Num 0)))
       \<lparr>shape = [12, 1, 1], data = replicate 12 (Num 2)\<rparr> [Num 51] [Num 7]"
  using coordinates_only_by_length[of "[Num (-33)]" "[Num 51]" "[Num (-70)]" "[Num 7]"
      "\<lparr>shape = [12, 1, 1], data = replicate 12 (Num 2)\<rparr>" "\<lambda>a b. Inr (replicate 5 (Num 0))"]
  by simp

section \<open>monthly\_regression writes only to its own arrays\<close>

lemma build_predictors_steps:
  "\<exists>p1 p2 p3.
     assign_column (np_ones 12 5) 1 (umap (\<lambda>t. cos (2 * pi * t / 12)) (np_arange 1 13)) = Inr p1 \<and>
     assign_column p1 2 (umap (\<lambda>t. sin (2 * pi * t / 12)) (np_arange 1 13)) = Inr p2 \<and>
     assign_column p2 3 (umap (\<lambda>t. cos (4 * pi * t / 12)) (np_arange 1 13)) = Inr p3 \<and>
     assign_column p3 4 (umap (\<lambda>t. sin (4 * pi * t / 12)) (np_arange 1 13)) = Inr design_matrix"
  using build_predictors_12
  by (auto simp: build_predictors_def Let_def split: sum.splits)

lemma monthly_regression_store_short:
  assumes "length (vectors s ! ts) \<noteq> 12"
  shows "monthly_regression_store lstsq ts s =
           (Inl ValueError,
            s\<lparr>vectors := vectors s @ [np_arange 1 13],
              matrices := matrices s @ [np_ones (length (vectors s ! ts)) 5]\<rparr>)"
proof -
  have "assign_column (np_ones (length (vectors s ! ts)) 5) 1
          (umap (\<lambda>t. cos (2 * pi * t / 12)) (np_arange 1 13)) = Inl ValueError"
    using assms by (simp add: assign_column_def np_ones_def umap_def np_arange_def)
  then show ?thesis
    by (simp add: monthly_regression_store_def new_matrix_def new_vector_def store_column_def)
qed

lemma monthly_regression_store_12:
  assumes len: "length (vectors s ! ts) = 12" and ts: "ts < length (vectors s)"
  shows "monthly_regression_store lstsq ts s =
     (case lstsq design_matrix (vectors s ! ts) of
        Inl e \<Rightarrow> (Inl e, s\<lparr>vectors := vectors s @ [np_arange 1 13],
                          matrices := matrices s @ [design_matrix]\<rparr>)
      | Inr c \<Rightarrow>
          (case np_matmul design_matrix c of
             Inl e \<Rightarrow> (Inl e, s\<lparr>vectors := vectors s @ [np_arange 1 13, c],
                               matrices := matrices s @ [design_matrix]\<rparr>)
           | Inr v \<Rightarrow> (Inr (Suc (Suc (length (vectors s)))),
                       s\<lparr>vectors := vectors s @ [np_arange 1 13, c, v],
                         matrices := matrices s @ [design_matrix]\<rparr>)))"
proof -
  from build_predictors_steps obtain p1 p2 p3 where
    "assign_column (np_ones 12 5) 1 (umap (\<lambda>t. cos (2 * pi * t / 12)) (np_arange 1 13)) = Inr p1"
    "assign_column p1 2 (umap (\<lambda>t. sin (2 * pi * t / 12)) (np_arange 1 13)) = Inr p2"
    "assign_column p2 3 (umap (\<lambda>t. cos (4 * pi * t / 12)) (np_arange 1 13)) = Inr p3"
    "assign_column p3 4 (umap (\<lambda>t. sin (4 * pi * t / 12)) (np_arange 1 13)) = Inr design_matrix"
    by blast
  then show ?thesis
    using ts
    by (simp add: monthly_regression_store_def new_matrix_def new_vector_def store_column_def
        store_lstsq_def store_matmul_def len nth_append split: sum.splits)
qed

lemma monthly_regression_store_run:
  assumes ts: "ts < length (vectors s)"
  shows "\<exists>vs ms. snd (monthly_regression_store lstsq ts s) =
                   s\<lparr>vectors := vectors s @ vs, matrices := matrices s @ ms\<rparr> \<and>
                 returned (monthly_regression_store lstsq ts s) =
                   monthly_regression lstsq (vectors s ! ts)"
proof (cases "length (vectors s ! ts) = 12")
  case False
  have "returned (monthly_regression_store lstsq ts s) = monthly_regression lstsq (vectors s ! ts)"
    using False
    by (simp add: monthly_regression_store_short returned_def monthly_regression_def
        build_predictors_other)
  then show ?thesis
    unfolding monthly_regression_store_short[OF False] by (intro exI conjI) simp_all
next
  case True
  show ?thesis
  proof (cases "lstsq design_matrix (vectors s ! ts)")
    case (Inl e)
    show ?thesis
      unfolding monthly_regression_store_12[OF True ts] monthly_regression_12[OF True]
      by (intro exI[of _ "[np_arange 1 13]"] exI[of _ "[design_matrix]"])
        (simp add: Inl returned_def)
  next
    case c: (Inr c)
    show ?thesis
    proof (cases "np_matmul design_matrix c")
      case (Inl e)
      show ?thesis
        unfolding monthly_regression_store_12[OF True ts] monthly_regression_12[OF True]
        by (intro exI[of _ "[np_arange 1 13, c]"] exI[of _ "[design_matrix]"])
          (simp add: c Inl returned_def)
    next
      case (Inr v)
      show ?thesis
        unfolding monthly_regression_store_12[OF True ts] monthly_regression_12[OF True]
        by (intro exI[of _ "[np_arange 1 13, c, v]"] exI[of _ "[design_matrix]"])
          (simp add: c Inr returned_def nth_append)
    qed
  qed
qed

text \<open>
  Claim C8. Run on a store of arrays, \<open>monthly_regression\<close> leaves every array that
  existed before the call as it was, the input among them: it writes only to the arrays
  it allocates. What it returns is a function of the input's value alone: two calls on
  inputs of equal value return equal values (or the same error), whatever else the two
  stores hold.
\<close>

theorem monthly_regression_deterministic:
  assumes "ts < length (vectors s)" and "ts' < length (vectors s')"
    and "vectors s ! ts = vectors s' ! ts'"
  shows "returned (monthly_regression_store lstsq ts s) =
           returned (monthly_regression_store lstsq ts' s') \<and>
         returned (monthly_regression_store lstsq ts s) = monthly_regression lstsq (vectors s ! ts) \<and>
         take (length (vectors s)) (vectors (snd (monthly_regression_store lstsq ts s))) = vectors s \<and>
         take (length (matrices s)) (matrices (snd (monthly_regression_store lstsq ts s))) = matrices s \<and>
         vectors (snd (monthly_regression_store lstsq ts s)) ! ts = vectors s ! ts"
proof -
  from monthly_regression_store_run[OF assms(1), of lstsq] obtain vs ms where
    run: "snd (monthly_regression_store lstsq ts s) =
            s\<lparr>vectors := vectors s @ vs, matrices := matrices s @ ms\<rparr>"
    and ret: "returned (monthly_regression_store lstsq ts s) =
            monthly_regression lstsq (vectors s ! ts)"
    by blast
  from monthly_regression_store_run[OF assms(2), of lstsq]
  have ret': "returned (monthly_regression_store lstsq ts' s') =
            monthly_regression lstsq (vectors s' ! ts')"
    by blast
  show ?thesis using assms by (simp add: run ret ret' nth_append)
qed

theorem monthly_regression_deterministic_witness:
  "returned (monthly_regression_store (\<lambda>a b. Inr (replicate 5 (Num 0))) 0
       \<lparr>vectors = [replicate 12 (Num 1)], matrices = []\<rparr>) =
   returned (monthly_regression_store (\<lambda>a b. Inr (replicate 5 (Num 0))) 1
       \<lparr>vectors = [[Num 7], replicate 12 (Num 1)], matrices = [[[Num 3]]]\<rparr>) \<and>
   vectors (snd (monthly_regression_store (\<lambda>a b. Inr (replicate 5 (Num 0))) 0
       \<lparr>vectors = [replicate 12 (Num 1)], matrices = []\<rparr>)) ! 0 = replicate 12 (Num 1)"
  using monthly_regression_deterministic[of 0 "\<lparr>vectors = [replicate 12 (Num 1)], matrices = []\<rparr>"
      1 "\<lparr>vectors = [[Num 7], replicate 12 (Num 1)], matrices = [[[Num 3]]]\<rparr>"
      "\<lambda>a b. Inr (replicate 5 (Num 0))"]
  by simp

section \<open>The anomaly is the difference of the grid and the fit\<close>







end
